theory Spec2Isabelle
  imports Main "HOL-Library.Word"
begin

section \<open>Strings of the script\<close>

text \<open>
  A JavaScript string is a sequence of UTF-16 code units. String constants of the script
  are written with \<open>js\<close> on their ASCII parts; code units outside ASCII are given by
  their number (\<open>0xE9\<close> is e with acute accent, \<open>0x2014\<close> the em dash).
\<close>

type_synonym jschar = "16 word"
type_synonym jsstring = "jschar list"

definition js :: "string \<Rightarrow> jsstring" where
  "js s = map of_char s"

definition SP :: jschar where
  "SP = 0x20"

text \<open>
  \<open>String.prototype.startsWith\<close>, \<open>includes\<close> and \<open>endsWith\<close> with a string
  argument and no position.
\<close>

fun startsWith :: "jsstring \<Rightarrow> jsstring \<Rightarrow> bool" where
  "startsWith s [] = True"
| "startsWith [] (p # ps) = False"
| "startsWith (c # cs) (p # ps) = (c = p \<and> startsWith cs ps)"

fun str_includes :: "jsstring \<Rightarrow> jsstring \<Rightarrow> bool" where
  "str_includes [] p = (p = [])"
| "str_includes (c # cs) p = (startsWith (c # cs) p \<or> str_includes cs p)"

definition endsWith :: "jsstring \<Rightarrow> jsstring \<Rightarrow> bool" where
  "endsWith s p = startsWith (rev s) (rev p)"

text \<open>
  \<open>String.prototype.toLowerCase\<close>, one code unit at a time. The mapping is the one of
  ECMAScript on Basic Latin and Latin-1 Supplement, and on the two code points outside
  them whose lower case contains a Basic Latin letter (the Kelvin sign and the capital I
  with dot above, which becomes two code units). Letters of other scripts are left as
  they are: the lexicons below contain Basic Latin and Latin-1 letters only.
\<close>

definition lowerUnit :: "jschar \<Rightarrow> jsstring" where
  "lowerUnit c =
     (if 0x41 \<le> c \<and> c \<le> 0x5A then [c + 0x20]
      else if 0xC0 \<le> c \<and> c \<le> 0xDE \<and> c \<noteq> 0xD7 then [c + 0x20]
      else if c = 0x130 then [0x69, 0x307]
      else if c = 0x212A then [0x6B]
      else [c])"

definition toLowerCase :: "jsstring \<Rightarrow> jsstring" where
  "toLowerCase s = concat (map lowerUnit s)"

text \<open>
  White space and line terminators of ECMAScript: what \<open>trim\<close> strips and what the
  regular expression class \<open>\s\<close> matches.
\<close>

definition isWhiteSpace :: "jschar \<Rightarrow> bool" where
  "isWhiteSpace c =
     ((0x09 \<le> c \<and> c \<le> 0x0D) \<or> c = 0x20 \<or> c = 0xA0 \<or> c = 0x1680
      \<or> (0x2000 \<le> c \<and> c \<le> 0x200A) \<or> c = 0x2028 \<or> c = 0x2029 \<or> c = 0x202F
      \<or> c = 0x205F \<or> c = 0x3000 \<or> c = 0xFEFF)"

definition trim :: "jsstring \<Rightarrow> jsstring" where
  "trim s = rev (dropWhile isWhiteSpace (rev (dropWhile isWhiteSpace s)))"

section \<open>Topic classification\<close>

text \<open>
  The text handed to the classifiers is a string, or absent (\<open>None\<close>: \<open>undefined\<close>
  or \<open>null\<close>). \<open>!text\<close> holds of an absent text and of the empty string.
\<close>

definition greetings :: "jsstring list" where
  "greetings = map js [''hi'', ''hello'', ''hey'', ''bonjour'', ''good morning'',
     ''good afternoon'', ''good evening'', ''greetings'']"

definition greetingMatches :: "jsstring \<Rightarrow> jsstring \<Rightarrow> bool" where
  "greetingMatches t g =
     (t = g \<or> startsWith t (g @ [SP]) \<or> str_includes t ([SP] @ g @ [SP])
      \<or> endsWith t ([SP] @ g))"

definition isGreeting :: "jsstring option \<Rightarrow> bool" where
  "isGreeting text =
     (case text of
        None \<Rightarrow> False
      | Some tx \<Rightarrow>
          if tx = [] then False
          else (let t = toLowerCase tx in list_ex (greetingMatches t) greetings))"

definition keywords_tbl :: "jsstring list" where
  "keywords_tbl =
     [js ''loreal'', js ''l'or'' @ [0xE9] @ js ''al'', js ''lore'' @ [0xE1] @ js ''l'',
      js ''makeup'', js ''beauty'', js ''skincare'', js ''skin'', js ''hair'',
      js ''haircare'', js ''fragrance'', js ''perfume'', js ''cosmetic'', js ''product'',
      js ''routine'', js ''serum'', js ''moisturizer'', js ''foundation'', js ''mascara'',
      js ''shampoo'', js ''conditioner'', js ''styling'', js ''color'', js ''cream'',
      js ''cleanser'', js ''toner'', js ''sunscreen'', js ''spf'']"

definition isRelatedQuery :: "jsstring option \<Rightarrow> bool" where
  "isRelatedQuery text =
     (case text of
        None \<Rightarrow> False
      | Some tx \<Rightarrow>
          if tx = [] then False
          else (let t = toLowerCase tx in list_ex (\<lambda>k. str_includes t k) keywords_tbl))"

text \<open>
  An occurrence of \<open>g\<close> in \<open>t\<close> as a whole token: \<open>g\<close> stands in \<open>t\<close> with the
  beginning of the text or a space before it, and the end of the text or a space after
  it. This is the reading of the specification, not a function of the script.
\<close>

definition occursAsToken :: "jsstring \<Rightarrow> jsstring \<Rightarrow> bool" where
  "occursAsToken g t =
     (\<exists>pre post. t = pre @ g @ post
        \<and> (pre = [] \<or> last pre = SP) \<and> (post = [] \<or> hd post = SP))"

section \<open>JSON values and JavaScript values\<close>

text \<open>
  What \<open>JSON.parse\<close> returns. Numbers are integers here: the script only tests a
  number for being zero. A JavaScript value is a JSON value or \<open>undefined\<close>
  (\<open>None\<close>); a property an object does not have reads as \<open>undefined\<close>.
\<close>

datatype json =
  JNull
| JBool bool
| JNum int
| JStr jsstring
| JArr "json list"
| JObj "(jsstring \<times> json) list"

type_synonym jsval = "json option"

datatype error =
  TypeError
| SyntaxError
| NetworkError
| WorkerError nat jsstring
| OpenAIError nat jsstring
| ConfigError

fun truthy :: "jsval \<Rightarrow> bool" where
  "truthy None = False"
| "truthy (Some JNull) = False"
| "truthy (Some (JBool b)) = b"
| "truthy (Some (JNum n)) = (n \<noteq> 0)"
| "truthy (Some (JStr s)) = (s \<noteq> [])"
| "truthy (Some (JArr xs)) = True"
| "truthy (Some (JObj kvs)) = True"

text \<open>
  \<open>v.k\<close> for the property names the script reads (\<open>role\<close>, \<open>content\<close>,
  \<open>time\<close>, \<open>choices\<close>, \<open>message\<close>), none of which is a built-in property of a
  string, an array, a number or a boolean. Reading a property of \<open>null\<close> or
  \<open>undefined\<close> throws a TypeError.
\<close>

fun member :: "jsval \<Rightarrow> jsstring \<Rightarrow> error + jsval" where
  "member None k = Inl TypeError"
| "member (Some JNull) k = Inl TypeError"
| "member (Some (JObj kvs)) k = Inr (map_of kvs k)"
| "member (Some v) k = Inr None"

text \<open>\<open>v[0]\<close>: the first element of an array, the first code unit of a string.\<close>

fun elem0 :: "jsval \<Rightarrow> error + jsval" where
  "elem0 None = Inl TypeError"
| "elem0 (Some JNull) = Inl TypeError"
| "elem0 (Some (JArr xs)) = Inr (case xs of [] \<Rightarrow> None | x # rest \<Rightarrow> Some x)"
| "elem0 (Some (JStr s)) = Inr (case s of [] \<Rightarrow> None | c # rest \<Rightarrow> Some (JStr [c]))"
| "elem0 (Some (JObj kvs)) = Inr (map_of kvs (js ''0''))"
| "elem0 (Some v) = Inr None"

section \<open>Messages, storage, page and environment\<close>

text \<open>
  A message object of the \<open>messages\<close> array. A property that is absent or
  \<open>undefined\<close> is \<open>None\<close>; \<open>JSON.stringify\<close> leaves such a property out.
\<close>

record msg =
  role :: jsval
  content :: jsval
  time :: jsval

definition field :: "jsstring \<Rightarrow> jsval \<Rightarrow> (jsstring \<times> json) list" where
  "field k v = (case v of None \<Rightarrow> [] | Some j \<Rightarrow> [(k, j)])"

definition msg_json :: "msg \<Rightarrow> json" where
  "msg_json m =
     JObj (field (js ''role'') (role m) @ field (js ''content'') (content m)
           @ field (js ''time'') (time m))"

text \<open>
  \<open>localStorage\<close>, with the three keys the script uses. The two keys read through
  \<open>JSON.parse\<close> hold a text that is empty, that does not parse, or that parses to a JSON
  value; \<open>JSON.stringify\<close> writes the text of a value, and \<open>setItem\<close> is taken to
  succeed. \<open>None\<close> is a key that is not set.
\<close>

datatype stored = EmptyText | Malformed | Doc json

record storage =
  loreal_messages :: "stored option"
  loreal_pastQuestions :: "stored option"
  loreal_userName :: "jsstring option"

text \<open>
  The chat window is a list of message blocks. A block has the class of its role
  (\<open>ai\<close> or \<open>user\<close>) and its bubbles; the text of a bubble is a fixed label followed
  by a JavaScript value, kept here as the pair. The placeholder shown while a request is
  pending is the block marked \<open>elLoading\<close>. Avatars and the time stamp under a bubble
  are not modelled.
\<close>

type_synonym bubble = "jsstring \<times> jsval"

record element =
  elRole :: jsstring
  elBubbles :: "bubble list"
  elLoading :: bool

text \<open>
  The trace records what the script does to the outside, in order: each call of
  \<open>sendToApi\<close> with its argument, each \<open>fetch\<close> with its URL, bearer credential
  and JSON body, each value that \<open>saveConversation\<close> serialises into the storage with
  its key, each error written to the console.
\<close>

datatype event =
  SendToApi "msg list"
| Fetch jsstring "jsstring option" json
| SetItem jsstring json
| ConsoleError error

record response =
  respStatus :: nat
  respText :: jsstring
  respJson :: "json option"

datatype fetched = Rejected | Resolved response

text \<open>
  What a turn reads from outside: the two readings of the clock, the credential
  \<open>window.OPENAI_API_KEY\<close> and the answer of the network to a request.
\<close>

record env =
  now1 :: jsstring
  now2 :: jsstring
  OPENAI_API_KEY :: "jsstring option"
  fetch :: "jsstring \<Rightarrow> jsstring option \<Rightarrow> json \<Rightarrow> fetched"

record state =
  messages :: "msg list"
  userName :: "jsstring option"
  pastQuestions :: "json list"
  localStorage :: storage
  chatWindow :: "element list"
  userInput :: jsstring
  userNameDisplayEl :: "jsstring option"
  trace :: "event list"

section \<open>Constants of the script\<close>

definition LOreal :: jsstring where
  "LOreal = js ''L'Or'' @ [0xE9] @ js ''al''"

definition getWorkerUrl :: jsstring where
  "getWorkerUrl = js ''https://lorealchatbot.dilyosov.workers.dev/''"

definition systemMessage :: msg where
  "systemMessage =
     \<lparr>role = Some (JStr (js ''system'')),
      content = Some (JStr (js ''You are '' @ LOreal
        @ js '''s Smart Product Advisor. Answer questions only about '' @ LOreal
        @ js '' products, cosmetics, beauty, skincare, haircare, and fragrances. If a user's query is unrelated to these topics, politely refuse and say you can't help with that topic. Always respond kindly to greetings (for example: hello, hi, bonjour) ''
        @ [0x2014] @ js '' greet the user and invite them to ask about '' @ LOreal
        @ js '' products or routines.'')),
      time = None\<rparr>"

definition welcomeMsg :: jsstring where
  "welcomeMsg = [0xD83D, 0xDC4B] @ js '' Bonjour '' @ [0x2014] @ js '' I'm '' @ LOreal
     @ js '''s Smart Product Advisor. Ask about products, routines, or personalized recommendations.''"

definition greet :: jsstring where
  "greet = js ''Bonjour! I'm '' @ LOreal
     @ js '''s Smart Product Advisor. How can I help you with '' @ LOreal
     @ js '' products, routines, or recommendations?''"

definition refuse :: jsstring where
  "refuse = js ''I'm here to help with '' @ LOreal
     @ js '' products, routines and beauty topics '' @ [0x2014]
     @ js '' I can't assist with that. Please ask about skincare, makeup, haircare, or fragrances.''"

definition cfgMsg :: jsstring where
  "cfgMsg = js ''This demo is not configured to talk to the API. For production, set up a Cloudflare Worker and add the worker URL to a gitignored `secrets.local.js` (example: `window.WORKER_URL = 'https://your-worker.example.workers.dev'`).''
     @ [0x0A, 0x0A]
     @ js ''For local testing only, you can create `secrets.local.js` with `window.OPENAI_API_KEY = 'sk-...';` (not recommended to commit).''"

definition errMsg :: jsstring where
  "errMsg = js ''Sorry '' @ [0x2014] @ js '' something went wrong. Please try again later.''"

definition noResponse :: jsstring where
  "noResponse = js ''(No response from API)''"

definition advisorLabel :: jsstring where
  "advisorLabel = LOreal @ js '' Advisor: ''"

definition thinking :: bubble where
  "thinking = (LOreal @ js '' Advisor: Thinking...'', Some (JStr []))"

section \<open>Rendering\<close>

text \<open>
  \<open>renderMessage\<close> adds the bubble to the last block of the chat window when that
  block has the class of the role, and opens a new block otherwise.
\<close>

definition renderMessage :: "jsstring \<Rightarrow> bubble \<Rightarrow> state \<Rightarrow> state" where
  "renderMessage r b s =
     (let cw = chatWindow s in
      if cw \<noteq> [] \<and> elRole (last cw) = r
      then s\<lparr>chatWindow := butlast cw @ [(last cw)\<lparr>elBubbles := elBubbles (last cw) @ [b]\<rparr>]\<rparr>
      else s\<lparr>chatWindow := cw @ [\<lparr>elRole = r, elBubbles = [b], elLoading = False\<rparr>]\<rparr>)"

definition renderAssistantMessage :: "jsval \<Rightarrow> state \<Rightarrow> state" where
  "renderAssistantMessage text s = renderMessage (js ''ai'') (advisorLabel, text) s"

definition renderUserMessage :: "jsstring \<Rightarrow> state \<Rightarrow> state" where
  "renderUserMessage text s = renderMessage (js ''user'') (js '' '', Some (JStr text)) s"

text \<open>
  The placeholder of the handler and \<open>loadingEl.remove()\<close>. The handler empties the
  chat window before it adds the placeholder, so the placeholder is the only block marked
  \<open>elLoading\<close> there, and removing it is removing the marked blocks. Its bubble is the
  fixed text alone.
\<close>

definition loadingEl :: element where
  "loadingEl = \<lparr>elRole = js ''ai'', elBubbles = [thinking], elLoading = True\<rparr>"

definition removeLoading :: "state \<Rightarrow> state" where
  "removeLoading s = s\<lparr>chatWindow := filter (\<lambda>el. \<not> elLoading el) (chatWindow s)\<rparr>"

definition logError :: "error \<Rightarrow> state \<Rightarrow> state" where
  "logError err s = s\<lparr>trace := trace s @ [ConsoleError err]\<rparr>"

section \<open>Saving and restoring the conversation\<close>

definition saveConversation :: "state \<Rightarrow> state" where
  "saveConversation s =
     (let store = drop 1 (messages s) in
      s\<lparr>localStorage := (localStorage s)
          \<lparr>loreal_messages := Some (Doc (JArr (map msg_json store))),
           loreal_pastQuestions := Some (Doc (JArr (pastQuestions s)))\<rparr>,
        trace := trace s @ [SetItem (js ''loreal_messages'') (JArr (map msg_json store)),
                            SetItem (js ''loreal_pastQuestions'') (JArr (pastQuestions s))]\<rparr>)"

text \<open>
  The copy \<open>{ role: m.role, content: m.content, time: m.time || null }\<close> of one
  restored entry. It throws when the entry is \<open>null\<close>.
\<close>

definition copyEntry :: "json \<Rightarrow> error + msg" where
  "copyEntry m =
     (case member (Some m) (js ''role'') of
        Inl err \<Rightarrow> Inl err
      | Inr r \<Rightarrow>
          (case member (Some m) (js ''content'') of
             Inl err \<Rightarrow> Inl err
           | Inr c \<Rightarrow>
               (case member (Some m) (js ''time'') of
                  Inl err \<Rightarrow> Inl err
                | Inr t \<Rightarrow>
                    Inr \<lparr>role = r, content = c,
                         time = (if truthy t then t else Some JNull)\<rparr>)))"

text \<open>
  The \<open>forEach\<close> loop of \<open>restoreConversation\<close>: the entries pushed before an
  exception stay in the array.
\<close>

fun pushEntries :: "json list \<Rightarrow> msg list \<Rightarrow> msg list \<times> error option" where
  "pushEntries [] ms = (ms, None)"
| "pushEntries (m # rest) ms =
     (case copyEntry m of
        Inl err \<Rightarrow> (ms, Some err)
      | Inr c \<Rightarrow> pushEntries rest (ms @ [c]))"

definition restoreConversation :: "state \<Rightarrow> state \<times> bool" where
  "restoreConversation s =
     (case loreal_messages (localStorage s) of
        None \<Rightarrow> (s, False)
      | Some EmptyText \<Rightarrow> (s, False)
      | Some Malformed \<Rightarrow> (logError SyntaxError s, False)
      | Some (Doc arr) \<Rightarrow>
          (case arr of
             JArr xs \<Rightarrow>
               if xs = [] then (s, False)
               else
                 (case pushEntries xs (messages s) of
                    (ms, Some err) \<Rightarrow> (logError err (s\<lparr>messages := ms\<rparr>), False)
                  | (ms, None) \<Rightarrow>
                      (let s1 = s\<lparr>messages := ms\<rparr> in
                       case loreal_pastQuestions (localStorage s1) of
                         None \<Rightarrow> (s1, True)
                       | Some EmptyText \<Rightarrow> (s1, True)
                       | Some Malformed \<Rightarrow> (logError SyntaxError s1, False)
                       | Some (Doc pqa) \<Rightarrow>
                           (case pqa of
                              JArr ys \<Rightarrow> (s1\<lparr>pastQuestions := pastQuestions s1 @ ys\<rparr>, True)
                            | _ \<Rightarrow> (s1, True))))
           | _ \<Rightarrow> (s, False)))"

section \<open>The user's name\<close>

definition strTruthy :: "jsstring option \<Rightarrow> bool" where
  "strTruthy v = (case v of None \<Rightarrow> False | Some x \<Rightarrow> x \<noteq> [])"

definition setUserName :: "jsstring option \<Rightarrow> state \<Rightarrow> state" where
  "setUserName name s =
     (let u = (case name of None \<Rightarrow> None | Some n \<Rightarrow> if n \<noteq> [] then Some (trim n) else None);
          s1 = s\<lparr>userName := u\<rparr>
      in case u of
           None \<Rightarrow>
             s1\<lparr>localStorage := (localStorage s1)\<lparr>loreal_userName := None\<rparr>,
                userNameDisplayEl := map_option (\<lambda>old. js ''Guest'') (userNameDisplayEl s1)\<rparr>
         | Some n \<Rightarrow>
             if n \<noteq> []
             then s1\<lparr>localStorage := (localStorage s1)\<lparr>loreal_userName := Some n\<rparr>,
                     userNameDisplayEl := map_option (\<lambda>old. n) (userNameDisplayEl s1)\<rparr>
             else s1\<lparr>localStorage := (localStorage s1)\<lparr>loreal_userName := None\<rparr>,
                     userNameDisplayEl := map_option (\<lambda>old. js ''Guest'') (userNameDisplayEl s1)\<rparr>)"

text \<open>
  The regular expression
  \<^verbatim>\<open>/\b(?:my name is|i'm|i am|this is)\s+([A-Za-z][A-Za-z'\- ]{0,40})/i\<close>
  of the submit handler. \<open>scan\<close> tries the positions of the text from the left and
  returns the first capture. Without the \<open>u\<close> flag, letter case is ignored for Basic
  Latin letters only, and \<open>\b\<close> and the classes are Basic Latin. At one position at most
  one of the four phrases matches; \<open>\s+\<close> takes all the white space there is, and
  giving some of it back would put white space where a letter has to stand; the capture
  takes as many characters as it can, up to 41.
\<close>

definition isAsciiLetter :: "jschar \<Rightarrow> bool" where
  "isAsciiLetter c = ((0x41 \<le> c \<and> c \<le> 0x5A) \<or> (0x61 \<le> c \<and> c \<le> 0x7A))"

definition isWordChar :: "jschar \<Rightarrow> bool" where
  "isWordChar c = (isAsciiLetter c \<or> (0x30 \<le> c \<and> c \<le> 0x39) \<or> c = 0x5F)"

definition isNameChar :: "jschar \<Rightarrow> bool" where
  "isNameChar c = (isAsciiLetter c \<or> c = 0x27 \<or> c = 0x2D \<or> c = 0x20)"

definition canon :: "jschar \<Rightarrow> jschar" where
  "canon c = (if 0x61 \<le> c \<and> c \<le> 0x7A then c - 0x20 else c)"

fun matchCI :: "jsstring \<Rightarrow> jsstring \<Rightarrow> jsstring option" where
  "matchCI [] s = Some s"
| "matchCI (p # ps) [] = None"
| "matchCI (p # ps) (c # cs) = (if canon c = canon p then matchCI ps cs else None)"

definition wordBoundary :: "jschar option \<Rightarrow> jschar option \<Rightarrow> bool" where
  "wordBoundary prev nxt =
     ((case prev of None \<Rightarrow> False | Some c \<Rightarrow> isWordChar c)
      \<noteq> (case nxt of None \<Rightarrow> False | Some c \<Rightarrow> isWordChar c))"

definition introductions :: "jsstring list" where
  "introductions = map js [''my name is'', ''i'm'', ''i am'', ''this is'']"

definition afterIntro :: "jsstring \<Rightarrow> jsstring option" where
  "afterIntro r =
     (let r' = dropWhile isWhiteSpace r in
      if length r' = length r then None
      else (case r' of
              [] \<Rightarrow> None
            | x # xs \<Rightarrow>
                if isAsciiLetter x then Some (x # takeWhile isNameChar (take 40 xs))
                else None))"

fun firstIntro :: "jsstring list \<Rightarrow> jsstring \<Rightarrow> jsstring option" where
  "firstIntro [] s = None"
| "firstIntro (a # rest) s =
     (case matchCI a s of
        None \<Rightarrow> firstIntro rest s
      | Some r \<Rightarrow>
          (case afterIntro r of
             None \<Rightarrow> firstIntro rest s
           | Some n \<Rightarrow> Some n))"

fun scan :: "jschar option \<Rightarrow> jsstring \<Rightarrow> jsstring option" where
  "scan prev [] = None"
| "scan prev (c # cs) =
     (if wordBoundary prev (Some c)
      then (case firstIntro introductions (c # cs) of
              Some n \<Rightarrow> Some n
            | None \<Rightarrow> scan (Some c) cs)
      else scan (Some c) cs)"

definition nameMatch :: "jsstring \<Rightarrow> jsstring option" where
  "nameMatch text = scan None text"

section \<open>Page load and the two buttons\<close>

definition pushMessage :: "msg \<Rightarrow> state \<Rightarrow> state" where
  "pushMessage m s = s\<lparr>messages := messages s @ [m]\<rparr>"

text \<open>
  The statements the script runs when it is loaded, on a page whose storage, chat
  window, input box and name display are given: the declarations of \<open>messages\<close>,
  \<open>userName\<close> and \<open>pastQuestions\<close> first, then the restore, the welcome and the
  stored name.
\<close>

definition initialState :: "storage \<Rightarrow> element list \<Rightarrow> jsstring \<Rightarrow> jsstring option \<Rightarrow> state" where
  "initialState st cw inp disp =
     \<lparr>messages = [systemMessage], userName = None, pastQuestions = [],
      localStorage = st, chatWindow = cw, userInput = inp,
      userNameDisplayEl = disp, trace = []\<rparr>"

definition pageLoad :: "storage \<Rightarrow> element list \<Rightarrow> jsstring \<Rightarrow> jsstring option \<Rightarrow> state" where
  "pageLoad st cw inp disp =
     (let s0 = initialState st cw inp disp;
          s1 = fst (restoreConversation s0);
          s2 = s1\<lparr>chatWindow := []\<rparr>;
          s3 = renderAssistantMessage (Some (JStr welcomeMsg)) s2
      in case loreal_userName (localStorage s3) of
           None \<Rightarrow> s3
         | Some storedName \<Rightarrow> if storedName \<noteq> [] then setUserName (Some storedName) s3 else s3)"

text \<open>The click on \<open>editNameBtn\<close>; \<open>answer\<close> is what \<open>prompt\<close> returns.\<close>

definition editName :: "jsstring option \<Rightarrow> state \<Rightarrow> state" where
  "editName answer s =
     (case answer of
        None \<Rightarrow> s
      | Some name \<Rightarrow>
          (let s1 = setUserName (Some name) s in
           if name \<noteq> [] \<and> trim name \<noteq> []
           then (let info = js ''Nice to meet you, '' @ trim name @ js ''! Ask me about ''
                        @ LOreal @ js '' products or routines.'';
                     s2 = renderAssistantMessage (Some (JStr info)) s1
                 in pushMessage \<lparr>role = Some (JStr (js ''assistant'')),
                                 content = Some (JStr info), time = None\<rparr> s2)
           else s1))"

text \<open>The click on \<open>clearConvBtn\<close>.\<close>

definition clearConversation :: "state \<Rightarrow> state" where
  "clearConversation s =
     (let s1 = s\<lparr>chatWindow := []\<rparr>;
          s2 = s1\<lparr>localStorage := (localStorage s1)
                  \<lparr>loreal_messages := None, loreal_pastQuestions := None\<rparr>\<rparr>;
          s3 = (if messages s2 \<noteq> [] then s2\<lparr>messages := [hd (messages s2)]\<rparr> else s2);
          s4 = s3\<lparr>pastQuestions := []\<rparr>;
          s5 = setUserName None s4
      in renderAssistantMessage (Some (JStr welcomeMsg)) s5)"

section \<open>The remote call\<close>

definition respOk :: "response \<Rightarrow> bool" where
  "respOk r = (200 \<le> respStatus r \<and> respStatus r \<le> 299)"

definition apiUrl :: jsstring where
  "apiUrl = js ''https://api.openai.com/v1/chat/completions''"

text \<open>
  \<open>sendToApi\<close> returns what it did (its call, then the request it sent) and either the
  parsed body of the response or the exception it throws.
\<close>

definition sendToApi :: "env \<Rightarrow> msg list \<Rightarrow> event list \<times> (error + json)" where
  "sendToApi e messagesArray =
     (let WORKER_URL = getWorkerUrl in
      if WORKER_URL \<noteq> [] then
        (let body = JObj [(js ''messages'', JArr (map msg_json messagesArray))];
             sent = [SendToApi messagesArray, Fetch WORKER_URL None body]
         in case fetch e WORKER_URL None body of
              Rejected \<Rightarrow> (sent, Inl NetworkError)
            | Resolved resp \<Rightarrow>
                if \<not> respOk resp
                then (sent, Inl (WorkerError (respStatus resp) (respText resp)))
                else (case respJson resp of
                        None \<Rightarrow> (sent, Inl SyntaxError)
                      | Some d \<Rightarrow> (sent, Inr d)))
      else if strTruthy (OPENAI_API_KEY e) then
        (let apiKey = OPENAI_API_KEY e;
             body = JObj [(js ''model'', JStr (js ''gpt-4o'')),
                          (js ''messages'', JArr (map msg_json messagesArray)),
                          (js ''max_tokens'', JNum 300)];
             sent = [SendToApi messagesArray, Fetch apiUrl apiKey body]
         in case fetch e apiUrl apiKey body of
              Rejected \<Rightarrow> (sent, Inl NetworkError)
            | Resolved resp \<Rightarrow>
                if \<not> respOk resp
                then (sent, Inl (OpenAIError (respStatus resp) (respText resp)))
                else (case respJson resp of
                        None \<Rightarrow> (sent, Inl SyntaxError)
                      | Some d \<Rightarrow> (sent, Inr d)))
      else ([SendToApi messagesArray], Inl ConfigError))"

text \<open>
  \<^verbatim>\<open>data && data.choices && data.choices[0] && data.choices[0].message
     ? data.choices[0].message.content : "(No response from API)"\<close>
\<close>

definition assistantText :: "json \<Rightarrow> error + jsval" where
  "assistantText data =
     (if \<not> truthy (Some data) then Inr (Some (JStr noResponse))
      else
       (case member (Some data) (js ''choices'') of
          Inl err \<Rightarrow> Inl err
        | Inr choices \<Rightarrow>
            if \<not> truthy choices then Inr (Some (JStr noResponse))
            else
             (case elem0 choices of
                Inl err \<Rightarrow> Inl err
              | Inr choice \<Rightarrow>
                  if \<not> truthy choice then Inr (Some (JStr noResponse))
                  else
                   (case member choice (js ''message'') of
                      Inl err \<Rightarrow> Inl err
                    | Inr message \<Rightarrow>
                        if \<not> truthy message then Inr (Some (JStr noResponse))
                        else member message (js ''content'')))))"

section \<open>The submit handler\<close>

text \<open>The guard \<^verbatim>\<open>!getWorkerUrl() && !window.OPENAI_API_KEY\<close> of the handler.\<close>

definition notConfigured :: "env \<Rightarrow> bool" where
  "notConfigured e = (getWorkerUrl = [] \<and> \<not> strTruthy (OPENAI_API_KEY e))"

text \<open>
  The three statements that end the greeting, refusal, configuration and success paths:
  render the text, push it as an assistant message with the time, save.
\<close>

definition answerWith :: "jsval \<Rightarrow> env \<Rightarrow> state \<Rightarrow> state" where
  "answerWith text e s =
     saveConversation
       (pushMessage \<lparr>role = Some (JStr (js ''assistant'')), content = text,
                     time = Some (JStr (now2 e))\<rparr>
          (renderAssistantMessage text s))"

text \<open>The \<open>catch\<close> block of the handler.\<close>

definition catchError :: "error \<Rightarrow> state \<Rightarrow> state" where
  "catchError err s =
     (let s1 = logError err s;
          s2 = removeLoading s1;
          s3 = renderAssistantMessage (Some (JStr errMsg)) s2
      in pushMessage \<lparr>role = Some (JStr (js ''assistant'')),
                      content = Some (JStr errMsg), time = None\<rparr> s3)"

text \<open>
  The statements of the handler from clearing the input box to
  \<open>pastQuestions.push(text)\<close>: the user's message is rendered, pushed with the time
  and saved, a self-introduced name is put into \<open>userName\<close>, the text is added to the
  past questions.
\<close>

definition recordQuestion :: "env \<Rightarrow> jsstring \<Rightarrow> state \<Rightarrow> state" where
  "recordQuestion e text s =
     (let s1 = s\<lparr>userInput := []\<rparr>;
          s2 = s1\<lparr>chatWindow := []\<rparr>;
          s3 = renderUserMessage text s2;
          s4 = pushMessage \<lparr>role = Some (JStr (js ''user'')), content = Some (JStr text),
                            time = Some (JStr (now1 e))\<rparr> s3;
          s5 = saveConversation s4;
          s6 = (case nameMatch text of
                  None \<Rightarrow> s5
                | Some captured \<Rightarrow> s5\<lparr>userName := Some (trim captured)\<rparr>)
      in s6\<lparr>pastQuestions := pastQuestions s6 @ [JStr text]\<rparr>)"

text \<open>
  The rest of the handler for a question on the topic: the placeholder, then the
  \<open>try\<close> block with the call of \<open>sendToApi\<close>, and the \<open>catch\<close> block.
\<close>

definition askRemote :: "env \<Rightarrow> state \<Rightarrow> state" where
  "askRemote e s =
     (let s1 = s\<lparr>chatWindow := chatWindow s @ [loadingEl]\<rparr> in
      if notConfigured e
      then answerWith (Some (JStr cfgMsg)) e (removeLoading s1)
      else
       (case sendToApi e (messages s1) of
          (sent, Inl err) \<Rightarrow> catchError err (s1\<lparr>trace := trace s1 @ sent\<rparr>)
        | (sent, Inr data) \<Rightarrow>
            (let s2 = removeLoading (s1\<lparr>trace := trace s1 @ sent\<rparr>) in
             case assistantText data of
               Inl err \<Rightarrow> catchError err s2
             | Inr text \<Rightarrow> answerWith text e (removeLoading s2))))"

text \<open>
  One turn: the handler of the form's submit event, run to its end on the value of the
  input box. The handler is one asynchronous function; the model takes it without
  another event arriving while it awaits the response.
\<close>

definition submit :: "env \<Rightarrow> state \<Rightarrow> state" where
  "submit e s =
     (let text = trim (userInput s) in
      if text = [] then s
      else
       (let s1 = recordQuestion e text s in
        if isGreeting (Some text) then answerWith (Some (JStr greet)) e s1
        else if \<not> isRelatedQuery (Some text) then answerWith (Some (JStr refuse)) e s1
        else askRemote e s1))"

section \<open>The states of a session\<close>

text \<open>
  A session starts with the load of the page; then the user types, submits, edits the
  name or clears the conversation, and another tab may write the storage.
\<close>

inductive reachable :: "state \<Rightarrow> bool" where
  loaded: "reachable (pageLoad st cw inp disp)"
| typed: "reachable s \<Longrightarrow> reachable (s\<lparr>userInput := v\<rparr>)"
| submitted: "reachable s \<Longrightarrow> reachable (submit e s)"
| nameEdited: "reachable s \<Longrightarrow> reachable (editName a s)"
| cleared: "reachable s \<Longrightarrow> reachable (clearConversation s)"
| otherTab: "reachable s \<Longrightarrow> reachable (s\<lparr>localStorage := st\<rparr>)"

section \<open>The restore contract in the words of the specification\<close>






section \<open>Sample pages and environments\<close>

definition emptyStorage :: storage where
  "emptyStorage =
     \<lparr>loreal_messages = None, loreal_pastQuestions = None, loreal_userName = None\<rparr>"

text \<open>A page just loaded on an empty storage, with a text typed into the input box.\<close>

definition freshPage :: "jsstring \<Rightarrow> state" where
  "freshPage typed = (pageLoad emptyStorage [] [] (Some (js ''Guest'')))\<lparr>userInput := typed\<rparr>"

text \<open>An environment whose network gives the same answer to every request.\<close>

definition answering :: "fetched \<Rightarrow> env" where
  "answering r =
     \<lparr>now1 = js ''2024-05-01T10:00:00.000Z'', now2 = js ''2024-05-01T10:00:02.000Z'',
      OPENAI_API_KEY = None, fetch = (\<lambda>url key body. r)\<rparr>"

definition status500 :: fetched where
  "status500 = Resolved \<lparr>respStatus = 500, respText = js ''Internal Server Error'',
                          respJson = None\<rparr>"

definition okWith :: "json \<Rightarrow> fetched" where
  "okWith d = Resolved \<lparr>respStatus = 200, respText = [], respJson = Some d\<rparr>"

text \<open>The response body \<^verbatim>\<open>{"choices":[{"message":{}}]}\<close>.\<close>

definition messageWithoutContent :: json where
  "messageWithoutContent = JObj [(js ''choices'', JArr [JObj [(js ''message'', JObj [])]])]"

section \<open>What holds of the conversation throughout a session\<close>

text \<open>
  A message the script pushes after the system message carries a time (a restored entry)
  or has the role \<open>user\<close> or \<open>assistant\<close>. Throughout a session the first message
  is the system message, the messages after it are of that kind, and no value saved
  under \<open>loreal_messages\<close> contains the text of the system message.
\<close>

definition laterMessage :: "msg \<Rightarrow> bool" where
  "laterMessage m =
     (time m \<noteq> None \<or> role m = Some (JStr (js ''user''))
      \<or> role m = Some (JStr (js ''assistant'')))"

fun cleanWrite :: "event \<Rightarrow> bool" where
  "cleanWrite (SetItem k (JArr xs)) =
     (k = js ''loreal_messages'' \<longrightarrow> msg_json systemMessage \<notin> set xs)"
| "cleanWrite (SetItem k v) = (k \<noteq> js ''loreal_messages'')"
| "cleanWrite ev = True"

definition sessionInv :: "state \<Rightarrow> bool" where
  "sessionInv s =
     (messages s \<noteq> [] \<and> hd (messages s) = systemMessage
      \<and> list_all laterMessage (tl (messages s))
      \<and> list_all cleanWrite (trace s))"

section \<open>Facts about the string functions\<close>

lemma startsWith_iff: "startsWith s p \<longleftrightarrow> (\<exists>r. s = p @ r)"
  by (induction s p rule: startsWith.induct) auto

lemma includes_iff: "str_includes s p \<longleftrightarrow> (\<exists>a b. s = a @ p @ b)"
proof (induction s)
  case Nil
  then show ?case by auto
next
  case (Cons c cs)
  show ?case
  proof
    assume "str_includes (c # cs) p"
    then consider "startsWith (c # cs) p" | "str_includes cs p" by auto
    then show "\<exists>a b. c # cs = a @ p @ b"
    proof cases
      case 1
      then obtain r where "c # cs = p @ r" by (auto simp: startsWith_iff)
      then have "c # cs = [] @ p @ r" by simp
      then show ?thesis by blast
    next
      case 2
      then obtain a b where "cs = a @ p @ b" using Cons.IH by blast
      then have "c # cs = (c # a) @ p @ b" by simp
      then show ?thesis by blast
    qed
  next
    assume "\<exists>a b. c # cs = a @ p @ b"
    then obtain a b where ab: "c # cs = a @ p @ b" by blast
    show "str_includes (c # cs) p"
    proof (cases a)
      case Nil
      with ab have "startsWith (c # cs) p" by (auto simp: startsWith_iff)
      then show ?thesis by simp
    next
      case (Cons x a')
      with ab have "cs = a' @ p @ b" by simp
      then have "str_includes cs p" using Cons.IH by blast
      then show ?thesis by simp
    qed
  qed
qed

lemma endsWith_iff: "endsWith s p \<longleftrightarrow> (\<exists>a. s = a @ p)"
proof
  assume "endsWith s p"
  then obtain r where "rev s = rev p @ r" by (auto simp: endsWith_def startsWith_iff)
  then have "s = rev r @ p" by (metis rev_append rev_rev_ident)
  then show "\<exists>a. s = a @ p" by blast
next
  assume "\<exists>a. s = a @ p"
  then obtain a where "s = a @ p" by blast
  then have "rev s = rev p @ rev a" by simp
  then show "endsWith s p" unfolding endsWith_def startsWith_iff by blast
qed

lemma greetingMatches_iff: "greetingMatches t g \<longleftrightarrow> occursAsToken g t"
proof
  assume "greetingMatches t g"
  then consider "t = g" | r where "t = (g @ [SP]) @ r"
    | a b where "t = a @ ([SP] @ g @ [SP]) @ b" | a where "t = a @ ([SP] @ g)"
    unfolding greetingMatches_def startsWith_iff includes_iff endsWith_iff by blast
  then show "occursAsToken g t"
  proof cases
    case 1
    then have "t = [] @ g @ []" by simp
    then show ?thesis unfolding occursAsToken_def by blast
  next
    case 2
    then have "t = [] @ g @ (SP # r)" by simp
    then show ?thesis unfolding occursAsToken_def by (metis list.sel(1))
  next
    case 3
    then have "t = (a @ [SP]) @ g @ (SP # b)" by simp
    then show ?thesis unfolding occursAsToken_def
      by (metis last_snoc list.sel(1))
  next
    case 4
    then have "t = (a @ [SP]) @ g @ []" by simp
    then show ?thesis unfolding occursAsToken_def by (metis last_snoc)
  qed
next
  assume "occursAsToken g t"
  then obtain pre post where t: "t = pre @ g @ post"
    and pre: "pre = [] \<or> last pre = SP" and post: "post = [] \<or> hd post = SP"
    unfolding occursAsToken_def by blast
  have pre': "pre = [] \<or> (\<exists>a. pre = a @ [SP])"
    using pre by (metis append_butlast_last_id)
  have post': "post = [] \<or> (\<exists>b. post = SP # b)"
    using post by (metis list.collapse)
  show "greetingMatches t g"
  proof (cases "pre = []")
    case True
    show ?thesis
    proof (cases "post = []")
      case True
      with \<open>pre = []\<close> t show ?thesis by (simp add: greetingMatches_def)
    next
      case False
      then obtain b where "post = SP # b" using post' by blast
      with \<open>pre = []\<close> t have "t = (g @ [SP]) @ b" by simp
      then have "startsWith t (g @ [SP])" unfolding startsWith_iff by blast
      then show ?thesis by (simp add: greetingMatches_def)
    qed
  next
    case False
    then obtain a where a: "pre = a @ [SP]" using pre' by blast
    show ?thesis
    proof (cases "post = []")
      case True
      with a t have "t = a @ ([SP] @ g)" by simp
      then have "endsWith t ([SP] @ g)" unfolding endsWith_iff by blast
      then show ?thesis by (simp add: greetingMatches_def)
    next
      case False
      then obtain b where "post = SP # b" using post' by blast
      with a t have "t = a @ ([SP] @ g @ [SP]) @ b" by simp
      then have "str_includes t ([SP] @ g @ [SP])" unfolding includes_iff by blast
      then show ?thesis by (simp add: greetingMatches_def)
    qed
  qed
qed

lemma greetings_nonempty: "[] \<notin> set greetings"
  by (simp add: greetings_def js_def)

lemma occursAsToken_empty: "g \<noteq> [] \<Longrightarrow> \<not> occursAsToken g []"
  by (simp add: occursAsToken_def)

section \<open>Claims about the classifier\<close>

text \<open>
  C7. \<open>isGreeting\<close> returns true if and only if some word of the greeting lexicon
  occurs in the lower-cased text as a whole token, that is with the beginning of the
  text or a space before it and the end of the text or a space after it (exact match,
  leading, interior and trailing token); a lexicon word that only occurs inside another
  word does not count. An empty or absent text yields false.
\<close>

theorem isGreeting_iff_token:
  "(isGreeting (Some text) \<longleftrightarrow> (\<exists>g \<in> set greetings. occursAsToken g (toLowerCase text)))
   \<and> \<not> isGreeting (Some []) \<and> \<not> isGreeting None"
proof -
  have "isGreeting (Some text) \<longleftrightarrow> (\<exists>g \<in> set greetings. occursAsToken g (toLowerCase text))"
  proof (cases "text = []")
    case True
    have "\<not> (\<exists>g \<in> set greetings. occursAsToken g (toLowerCase []))"
      using greetings_nonempty occursAsToken_empty
      by (metis concat.simps(1) list.simps(8) toLowerCase_def)
    with True show ?thesis by (simp add: isGreeting_def)
  next
    case False
    then show ?thesis
      by (simp add: isGreeting_def list_ex_iff greetingMatches_iff)
  qed
  then show ?thesis by (simp add: isGreeting_def)
qed

theorem isGreeting_iff_token_witness:
  "isGreeting (Some (js ''Hello there''))
   \<and> (\<exists>g \<in> set greetings. occursAsToken g (toLowerCase (js ''Hello there'')))
   \<and> \<not> isGreeting (Some (js ''this shirt''))
   \<and> \<not> (\<exists>g \<in> set greetings. occursAsToken g (toLowerCase (js ''this shirt'')))"
proof -
  have a: "isGreeting (Some (js ''Hello there''))"
    by code_simp
  have b: "\<not> isGreeting (Some (js ''this shirt''))"
    by code_simp
  from a b isGreeting_iff_token [of "js ''Hello there''"]
    isGreeting_iff_token [of "js ''this shirt''"]
  show ?thesis by blast
qed

section \<open>Facts about the remote call\<close>

lemma getWorkerUrl_nonempty: "getWorkerUrl \<noteq> []"
  by (simp add: getWorkerUrl_def js_def)

lemma notConfigured_never: "\<not> notConfigured e"
  by (simp add: notConfigured_def getWorkerUrl_nonempty)

lemma sendToApi_relay:
  "fst (sendToApi e ms) =
     [SendToApi ms, Fetch getWorkerUrl None (JObj [(js ''messages'', JArr (map msg_json ms))])]"
  by (simp add: sendToApi_def Let_def getWorkerUrl_nonempty split: fetched.split option.split)

lemma sendToApi_eq:
  "sendToApi e ms = (sent, r) \<longleftrightarrow>
     sent = [SendToApi ms, Fetch getWorkerUrl None (JObj [(js ''messages'', JArr (map msg_json ms))])]
     \<and> snd (sendToApi e ms) = r"
  using sendToApi_relay [of e ms] by (cases "sendToApi e ms") auto

section \<open>Facts about the steps of the handler\<close>

lemmas steps = pushMessage_def saveConversation_def renderUserMessage_def
  renderAssistantMessage_def renderMessage_def removeLoading_def logError_def

lemma render_frame [simp]:
  "messages (renderMessage r b s) = messages s"
  "trace (renderMessage r b s) = trace s"
  "messages (renderAssistantMessage t s) = messages s"
  "trace (renderAssistantMessage t s) = trace s"
  "messages (renderUserMessage tx s) = messages s"
  "trace (renderUserMessage tx s) = trace s"
  "messages (removeLoading s) = messages s"
  "trace (removeLoading s) = trace s"
  "messages (setUserName n s) = messages s"
  "trace (setUserName n s) = trace s"
  by (simp_all add: renderMessage_def renderAssistantMessage_def renderUserMessage_def
      removeLoading_def setUserName_def Let_def split: option.split)

lemma step_frame [simp]:
  "messages (pushMessage m s) = messages s @ [m]"
  "trace (pushMessage m s) = trace s"
  "messages (logError err s) = messages s"
  "trace (logError err s) = trace s @ [ConsoleError err]"
  "messages (saveConversation s) = messages s"
  "trace (saveConversation s) =
     trace s @ [SetItem (js ''loreal_messages'') (JArr (map msg_json (drop 1 (messages s)))),
                SetItem (js ''loreal_pastQuestions'') (JArr (pastQuestions s))]"
  by (simp_all add: pushMessage_def logError_def saveConversation_def Let_def)

lemma answerWith_frame [simp]:
  "messages (answerWith t e s) =
     messages s @ [\<lparr>role = Some (JStr (js ''assistant'')), content = t, time = Some (JStr (now2 e))\<rparr>]"
  "trace (answerWith t e s) =
     trace s @ [SetItem (js ''loreal_messages'')
                  (JArr (map msg_json (drop 1 (messages s @
                     [\<lparr>role = Some (JStr (js ''assistant'')), content = t, time = Some (JStr (now2 e))\<rparr>])))),
                SetItem (js ''loreal_pastQuestions'') (JArr (pastQuestions s))]"
  by (simp_all add: answerWith_def renderAssistantMessage_def renderMessage_def pushMessage_def Let_def)

lemma catchError_frame [simp]:
  "messages (catchError err s) =
     messages s @ [\<lparr>role = Some (JStr (js ''assistant'')), content = Some (JStr errMsg), time = None\<rparr>]"
  "trace (catchError err s) = trace s @ [ConsoleError err]"
  by (simp_all add: catchError_def Let_def)

lemma recordQuestion_frame [simp]:
  "messages (recordQuestion e t s) =
     messages s @ [\<lparr>role = Some (JStr (js ''user'')), content = Some (JStr t),
                    time = Some (JStr (now1 e))\<rparr>]"
  "trace (recordQuestion e t s) =
     trace s @ [SetItem (js ''loreal_messages'')
                  (JArr (map msg_json (drop 1 (messages s @
                     [\<lparr>role = Some (JStr (js ''user'')), content = Some (JStr t),
                       time = Some (JStr (now1 e))\<rparr>])))),
                SetItem (js ''loreal_pastQuestions'') (JArr (pastQuestions s))]"
  "pastQuestions (recordQuestion e t s) = pastQuestions s @ [JStr t]"
  by (simp_all add: recordQuestion_def pushMessage_def saveConversation_def
      renderUserMessage_def renderMessage_def Let_def split: option.split)

lemma trim_empty_iff: "trim s = [] \<longleftrightarrow> (\<forall>c \<in> set s. isWhiteSpace c)"
proof -
  have "trim s = [] \<longleftrightarrow> (\<forall>c \<in> set (dropWhile isWhiteSpace s). isWhiteSpace c)"
    by (simp add: trim_def dropWhile_eq_Nil_conv)
  also have "\<dots> \<longleftrightarrow> dropWhile isWhiteSpace s = []"
    by (metis hd_dropWhile list.set_sel(1) empty_iff list.set(1))
  also have "\<dots> \<longleftrightarrow> (\<forall>c \<in> set s. isWhiteSpace c)"
    by (simp add: dropWhile_eq_Nil_conv)
  finally show ?thesis .
qed

lemma roles_differ: "js ''ai'' \<noteq> js ''user''"
  by (simp add: js_def)

section \<open>The invariant of a session\<close>

lemma laterMessage_not_system: "laterMessage m \<Longrightarrow> msg_json m \<noteq> msg_json systemMessage"
  by (cases "role m"; cases "content m"; cases "time m")
     (auto simp: laterMessage_def msg_json_def field_def systemMessage_def js_def)

lemma later_json_clean:
  "list_all laterMessage ms \<Longrightarrow> msg_json systemMessage \<notin> set (map msg_json ms)"
  by (induction ms) (auto dest: laterMessage_not_system [THEN not_sym])

lemma key_pastQuestions: "js ''loreal_pastQuestions'' \<noteq> js ''loreal_messages''"
  by (simp add: js_def)

lemma inv_frame: "sessionInv s \<Longrightarrow> messages s' = messages s \<Longrightarrow> trace s' = trace s \<Longrightarrow> sessionInv s'"
  by (simp add: sessionInv_def)

lemma inv_answerWith: "sessionInv s \<Longrightarrow> sessionInv (answerWith t e s)"
proof -
  assume inv: "sessionInv s"
  obtain rest where ms: "messages s = systemMessage # rest"
    using inv by (cases "messages s") (auto simp: sessionInv_def)
  have clean: "msg_json systemMessage \<notin> msg_json ` set rest"
    using later_json_clean [of rest] inv ms by (simp add: sessionInv_def)
  have a: "\<And>c t. msg_json systemMessage \<noteq> msg_json \<lparr>role = Some (JStr (js ''assistant'')), content = c, time = t\<rparr>"
    by (rule not_sym, rule laterMessage_not_system) (simp add: laterMessage_def)
  show ?thesis
    using inv clean a
    by (simp add: sessionInv_def laterMessage_def ms key_pastQuestions)
qed

lemma inv_catchError: "sessionInv s \<Longrightarrow> sessionInv (catchError err s)"
  by (cases "messages s") (auto simp: sessionInv_def laterMessage_def)

lemma inv_recordQuestion: "sessionInv s \<Longrightarrow> sessionInv (recordQuestion e t s)"
proof -
  assume inv: "sessionInv s"
  obtain rest where ms: "messages s = systemMessage # rest"
    using inv by (cases "messages s") (auto simp: sessionInv_def)
  have clean: "msg_json systemMessage \<notin> msg_json ` set rest"
    using later_json_clean [of rest] inv ms by (simp add: sessionInv_def)
  have u: "\<And>c t. msg_json systemMessage \<noteq> msg_json \<lparr>role = Some (JStr (js ''user'')), content = c, time = t\<rparr>"
    by (rule not_sym, rule laterMessage_not_system) (simp add: laterMessage_def)
  show ?thesis
    using inv clean u
    by (simp add: sessionInv_def laterMessage_def ms key_pastQuestions)
qed

lemma inv_askRemote:
  assumes inv: "sessionInv s"
  shows "sessionInv (askRemote e s)"
proof -
  define s1 where "s1 = s\<lparr>chatWindow := chatWindow s @ [loadingEl]\<rparr>"
  obtain sent r where call: "sendToApi e (messages s1) = (sent, r)"
    by (cases "sendToApi e (messages s1)")
  then have sent: "sent = [SendToApi (messages s1),
      Fetch getWorkerUrl None (JObj [(js ''messages'', JArr (map msg_json (messages s1)))])]"
    by (simp add: sendToApi_eq)
  have i1: "sessionInv (s1\<lparr>trace := trace s1 @ sent\<rparr>)"
    using inv by (simp add: sessionInv_def s1_def sent)
  have i2: "sessionInv (removeLoading (s1\<lparr>trace := trace s1 @ sent\<rparr>))"
    by (rule inv_frame [OF i1]) simp_all
  have i3: "sessionInv (removeLoading (removeLoading (s1\<lparr>trace := trace s1 @ sent\<rparr>)))"
    by (rule inv_frame [OF i2]) simp_all
  have "askRemote e s =
     (case r of
        Inl err \<Rightarrow> catchError err (s1\<lparr>trace := trace s1 @ sent\<rparr>)
      | Inr data \<Rightarrow>
          (case assistantText data of
             Inl err \<Rightarrow> catchError err (removeLoading (s1\<lparr>trace := trace s1 @ sent\<rparr>))
           | Inr t \<Rightarrow> answerWith t e
               (removeLoading (removeLoading (s1\<lparr>trace := trace s1 @ sent\<rparr>)))))"
    using call by (simp add: askRemote_def Let_def notConfigured_never s1_def [symmetric])
  then show ?thesis
    using i1 i2 i3 by (simp add: inv_answerWith inv_catchError split: sum.split)
qed

lemma inv_submit: "sessionInv s \<Longrightarrow> sessionInv (submit e s)"
  by (simp add: submit_def Let_def inv_recordQuestion inv_answerWith inv_askRemote)

lemma truthy_defined: "truthy v \<Longrightarrow> v \<noteq> None"
  by (cases v) simp_all

lemma copyEntry_time: "copyEntry j = Inr c \<Longrightarrow> time c \<noteq> None"
  by (auto simp: copyEntry_def split: sum.splits if_splits dest: truthy_defined)

lemma pushEntries_later:
  "pushEntries xs ms = (ms', r) \<Longrightarrow> \<exists>ys. ms' = ms @ ys \<and> list_all laterMessage ys"
proof (induction xs arbitrary: ms)
  case Nil
  then show ?case by simp
next
  case (Cons x xs)
  show ?case
  proof (cases "copyEntry x")
    case (Inl err)
    with Cons.prems show ?thesis by simp
  next
    case (Inr c)
    with Cons.prems have "pushEntries xs (ms @ [c]) = (ms', r)" by simp
    then obtain ys where "ms' = (ms @ [c]) @ ys" "list_all laterMessage ys"
      using Cons.IH by blast
    moreover have "laterMessage c"
      using copyEntry_time [OF Inr] by (simp add: laterMessage_def)
    ultimately have "ms' = ms @ (c # ys) \<and> list_all laterMessage (c # ys)" by simp
    then show ?thesis by blast
  qed
qed

lemma restore_shape:
  "\<exists>ys errs. messages (fst (restoreConversation s)) = messages s @ ys
      \<and> list_all laterMessage ys
      \<and> trace (fst (restoreConversation s)) = trace s @ map ConsoleError errs"
proof -
  have none: "\<exists>ys errs. messages s = messages s @ ys \<and> list_all laterMessage ys
      \<and> trace s = trace s @ map ConsoleError errs"
    by (rule exI [of _ "[]"], rule exI [of _ "[]"]) simp
  have one: "\<And>err. \<exists>ys errs. messages s = messages s @ ys \<and> list_all laterMessage ys
      \<and> trace s @ [ConsoleError err] = trace s @ map ConsoleError errs"
    by (rule exI [of _ "[]"], rule_tac x = "[err]" in exI) simp
  have pushed: "\<And>xs ms r. pushEntries xs (messages s) = (ms, r) \<Longrightarrow>
      (\<exists>ys errs. ms = messages s @ ys \<and> list_all laterMessage ys
         \<and> trace s = trace s @ map ConsoleError errs)
      \<and> (\<forall>err. \<exists>ys errs. ms = messages s @ ys \<and> list_all laterMessage ys
         \<and> trace s @ [ConsoleError err] = trace s @ map ConsoleError errs)"
  proof -
    fix xs ms r
    assume "pushEntries xs (messages s) = (ms, r)"
    then obtain ys where ys: "ms = messages s @ ys" "list_all laterMessage ys"
      using pushEntries_later by blast
    have "\<And>err. trace s @ [ConsoleError err] = trace s @ map ConsoleError [err]" by simp
    moreover have "trace s = trace s @ map ConsoleError []" by simp
    ultimately show "(\<exists>ys errs. ms = messages s @ ys \<and> list_all laterMessage ys
         \<and> trace s = trace s @ map ConsoleError errs)
      \<and> (\<forall>err. \<exists>ys errs. ms = messages s @ ys \<and> list_all laterMessage ys
         \<and> trace s @ [ConsoleError err] = trace s @ map ConsoleError errs)"
      using ys by blast
  qed
  show ?thesis
    using none one pushed
    by (auto simp: restoreConversation_def Let_def
        split: option.split stored.split json.split prod.split)
qed

lemma inv_restore: "sessionInv s \<Longrightarrow> sessionInv (fst (restoreConversation s))"
proof -
  assume inv: "sessionInv s"
  obtain ys errs where ys: "messages (fst (restoreConversation s)) = messages s @ ys"
      "list_all laterMessage ys"
      "trace (fst (restoreConversation s)) = trace s @ map ConsoleError errs"
    using restore_shape by blast
  have "list_all cleanWrite (map ConsoleError errs)"
    by (induction errs) simp_all
  then show ?thesis
    using inv ys by (cases "messages s") (auto simp: sessionInv_def)
qed

lemma inv_initial: "sessionInv (initialState st cw inp disp)"
  by (simp add: sessionInv_def initialState_def)

lemma inv_pageLoad: "sessionInv (pageLoad st cw inp disp)"
proof -
  have "sessionInv (fst (restoreConversation (initialState st cw inp disp)))"
    by (rule inv_restore [OF inv_initial])
  then have "sessionInv (renderAssistantMessage (Some (JStr welcomeMsg))
      ((fst (restoreConversation (initialState st cw inp disp)))\<lparr>chatWindow := []\<rparr>))"
    by (rule inv_frame) simp_all
  then show ?thesis
    unfolding pageLoad_def Let_def
    by (auto split: option.split elim: inv_frame)
qed

lemma inv_editName: "sessionInv s \<Longrightarrow> sessionInv (editName a s)"
  by (cases "messages s")
     (auto simp: editName_def Let_def sessionInv_def laterMessage_def split: option.split)

lemma inv_clear: "sessionInv s \<Longrightarrow> sessionInv (clearConversation s)"
  by (simp add: clearConversation_def Let_def sessionInv_def)

lemma reachable_inv: "reachable s \<Longrightarrow> sessionInv s"
proof (induction rule: reachable.induct)
  case (loaded st cw inp disp)
  show ?case by (rule inv_pageLoad)
next
  case (typed s v)
  then show ?case by (simp add: sessionInv_def)
next
  case (submitted s e)
  from submitted.IH show ?case by (rule inv_submit)
next
  case (nameEdited s a)
  from nameEdited.IH show ?case by (rule inv_editName)
next
  case (cleared s)
  from cleared.IH show ?case by (rule inv_clear)
next
  case (otherTab s st)
  then show ?case by (simp add: sessionInv_def)
qed

section \<open>Facts about the sample pages\<close>

lemma freshPage_fields:
  "messages (freshPage t) = [systemMessage]"
  "userName (freshPage t) = None"
  "pastQuestions (freshPage t) = []"
  "localStorage (freshPage t) = emptyStorage"
  "userInput (freshPage t) = t"
  "userNameDisplayEl (freshPage t) = Some (js ''Guest'')"
  "trace (freshPage t) = []"
  "chatWindow (freshPage t) =
     [\<lparr>elRole = js ''ai'', elBubbles = [(advisorLabel, Some (JStr welcomeMsg))], elLoading = False\<rparr>]"
  by (simp_all add: freshPage_def pageLoad_def initialState_def restoreConversation_def
      emptyStorage_def renderAssistantMessage_def renderMessage_def Let_def)

lemma reachable_freshPage: "reachable (freshPage t)"
  unfolding freshPage_def by (intro reachable.typed reachable.loaded)

lemma hello_facts:
  "trim (js ''Hello'') = js ''Hello''"
  "js ''Hello'' \<noteq> []"
  "isGreeting (Some (js ''Hello''))"
  by code_simp+

lemma shampoo_facts:
  "trim (js ''shampoo'') = js ''shampoo''"
  "js ''shampoo'' \<noteq> []"
  "\<not> isGreeting (Some (js ''shampoo''))"
  "isRelatedQuery (Some (js ''shampoo''))"
  "nameMatch (js ''shampoo'') = None"
  by code_simp+

lemma alex_facts:
  "trim (js ''My name is Alex, suggest a shampoo'') = js ''My name is Alex, suggest a shampoo''"
  "js ''My name is Alex, suggest a shampoo'' \<noteq> []"
  "\<not> isGreeting (Some (js ''My name is Alex, suggest a shampoo''))"
  "isRelatedQuery (Some (js ''My name is Alex, suggest a shampoo''))"
  "nameMatch (js ''My name is Alex, suggest a shampoo'') = Some (js ''Alex'')"
  "trim (js ''Alex'') = js ''Alex''"
  by code_simp+

lemma alex_turn_userName:
  "userName (submit (answering status500) (freshPage (js ''My name is Alex, suggest a shampoo'')))
     = Some (js ''Alex'')"
  by (simp add: submit_def askRemote_def recordQuestion_def catchError_def steps Let_def
      freshPage_fields alex_facts notConfigured_never sendToApi_def getWorkerUrl_nonempty
      answering_def status500_def respOk_def)

section \<open>Facts about restoring\<close>




section \<open>Claims about the turn\<close>

text \<open>
  C9. An input that is empty or consists of white space only is rejected with no effect:
  the state after the submit is the state before it, so the conversation, the past
  questions, the user name, the storage, the chat window and the input box are unchanged
  and no message is appended.
\<close>

theorem blank_input_rejected:
  "\<forall>c \<in> set (userInput s). isWhiteSpace c \<Longrightarrow> submit e s = s"
  by (simp add: submit_def trim_empty_iff)

theorem blank_input_rejected_witness:
  "list_all isWhiteSpace [0x20, 0x09, 0xA0]
   \<and> submit (answering status500) (freshPage [0x20, 0x09, 0xA0]) = freshPage [0x20, 0x09, 0xA0]"
proof -
  have ws: "list_all isWhiteSpace [0x20, 0x09, 0xA0]"
    by (simp add: isWhiteSpace_def)
  then have "\<forall>c \<in> set (userInput (freshPage [0x20, 0x09, 0xA0])). isWhiteSpace c"
    by (simp add: freshPage_fields)
  from blank_input_rejected [OF this] ws show ?thesis by simp
qed

text \<open>
  C8. When the trimmed input is not empty and \<open>isGreeting\<close> holds of it, the turn
  appends the user's message and the canned greeting, shows both, saves the conversation
  with the greeting in it, adds no call of \<open>sendToApi\<close> and no \<open>fetch\<close> to the
  trace, and does not depend on the network or the credential.
\<close>

theorem greeting_resolved_locally:
  assumes "trim (userInput s) \<noteq> []" and "isGreeting (Some (trim (userInput s)))"
  shows "messages (submit e s) =
           messages s @
           [\<lparr>role = Some (JStr (js ''user'')), content = Some (JStr (trim (userInput s))),
             time = Some (JStr (now1 e))\<rparr>,
            \<lparr>role = Some (JStr (js ''assistant'')), content = Some (JStr greet),
             time = Some (JStr (now2 e))\<rparr>]
         \<and> chatWindow (submit e s) =
           [\<lparr>elRole = js ''user'', elBubbles = [(js '' '', Some (JStr (trim (userInput s))))],
             elLoading = False\<rparr>,
            \<lparr>elRole = js ''ai'', elBubbles = [(advisorLabel, Some (JStr greet))],
             elLoading = False\<rparr>]
         \<and> list_all (\<lambda>ev. case ev of SendToApi ms \<Rightarrow> False | Fetch url key body \<Rightarrow> False
                            | _ \<Rightarrow> True)
             (drop (length (trace s)) (trace (submit e s)))
         \<and> loreal_messages (localStorage (submit e s)) =
             Some (Doc (JArr (map msg_json (drop 1 (messages (submit e s))))))
         \<and> (\<forall>f k. submit (e\<lparr>OPENAI_API_KEY := k, fetch := f\<rparr>) s = submit e s)"
proof -
  let ?t = "trim (userInput s)"
  have sub: "\<And>e. submit e s = answerWith (Some (JStr greet)) e (recordQuestion e ?t s)"
    using assms by (simp add: submit_def Let_def)
  have cw: "chatWindow (recordQuestion e ?t s) =
      [\<lparr>elRole = js ''user'', elBubbles = [(js '' '', Some (JStr ?t))], elLoading = False\<rparr>]"
    by (simp add: recordQuestion_def steps Let_def split: option.split)
  have 1: "messages (submit e s) =
           messages s @
           [\<lparr>role = Some (JStr (js ''user'')), content = Some (JStr ?t),
             time = Some (JStr (now1 e))\<rparr>,
            \<lparr>role = Some (JStr (js ''assistant'')), content = Some (JStr greet),
             time = Some (JStr (now2 e))\<rparr>]"
    by (simp add: sub)
  have 2: "chatWindow (submit e s) =
           [\<lparr>elRole = js ''user'', elBubbles = [(js '' '', Some (JStr ?t))],
             elLoading = False\<rparr>,
            \<lparr>elRole = js ''ai'', elBubbles = [(advisorLabel, Some (JStr greet))],
             elLoading = False\<rparr>]"
    by (simp add: sub answerWith_def steps cw roles_differ [symmetric])
  have 3: "list_all (\<lambda>ev. case ev of SendToApi ms \<Rightarrow> False | Fetch url key body \<Rightarrow> False
                            | _ \<Rightarrow> True)
             (drop (length (trace s)) (trace (submit e s)))"
    by (simp add: sub)
  have 4: "loreal_messages (localStorage (submit e s)) =
             Some (Doc (JArr (map msg_json (drop 1 (messages (submit e s))))))"
    unfolding sub by (simp add: answerWith_def saveConversation_def Let_def)
  have "\<And>f k. recordQuestion (e\<lparr>OPENAI_API_KEY := k, fetch := f\<rparr>) ?t s = recordQuestion e ?t s"
    by (simp add: recordQuestion_def)
  then have 5: "\<forall>f k. submit (e\<lparr>OPENAI_API_KEY := k, fetch := f\<rparr>) s = submit e s"
    by (simp add: sub answerWith_def)
  from 1 2 3 4 5 show ?thesis by blast
qed

theorem greeting_resolved_locally_witness:
  "messages (submit (answering status500) (freshPage (js ''Hello''))) =
     [systemMessage,
      \<lparr>role = Some (JStr (js ''user'')), content = Some (JStr (js ''Hello'')),
        time = Some (JStr (js ''2024-05-01T10:00:00.000Z''))\<rparr>,
      \<lparr>role = Some (JStr (js ''assistant'')), content = Some (JStr greet),
        time = Some (JStr (js ''2024-05-01T10:00:02.000Z''))\<rparr>]
   \<and> list_all (\<lambda>ev. case ev of SendToApi ms \<Rightarrow> False | Fetch url key body \<Rightarrow> False
                      | _ \<Rightarrow> True)
        (trace (submit (answering status500) (freshPage (js ''Hello''))))"
proof -
  have a: "trim (userInput (freshPage (js ''Hello''))) \<noteq> []"
    by (simp add: freshPage_fields hello_facts)
  have b: "isGreeting (Some (trim (userInput (freshPage (js ''Hello'')))))"
    by (simp add: freshPage_fields hello_facts)
  from greeting_resolved_locally [OF a b, of "answering status500"]
  show ?thesis by (simp add: freshPage_fields hello_facts answering_def)
qed

text \<open>
  C10. \<open>getWorkerUrl\<close> is the fixed, non-empty relay URL. Hence every call of
  \<open>sendToApi\<close> sends exactly one request, to the relay and without a credential; it
  never fails with the configuration error or with an error of the direct provider
  branch; and the guard of the handler's configuration message is false.
\<close>

theorem relay_branch_always_taken:
  "getWorkerUrl = js ''https://lorealchatbot.dilyosov.workers.dev/''
   \<and> getWorkerUrl \<noteq> []
   \<and> fst (sendToApi e ms) =
       [SendToApi ms,
        Fetch getWorkerUrl None (JObj [(js ''messages'', JArr (map msg_json ms))])]
   \<and> snd (sendToApi e ms) \<noteq> Inl ConfigError
   \<and> (\<forall>n b. snd (sendToApi e ms) \<noteq> Inl (OpenAIError n b))
   \<and> \<not> notConfigured e"
  by (simp add: sendToApi_def Let_def getWorkerUrl_nonempty notConfigured_never
      split: fetched.split option.split)
     (simp add: getWorkerUrl_def)

text \<open>
  C1. The claim has the apology saved after a failed remote call. On the input
  \<open>shampoo\<close> with the relay answering status 500, the handler removes the
  placeholder and appends the apology to the conversation, but the storage still holds
  the snapshot written before the call: the user's message alone, and the past questions
  without the question just asked. The \<open>catch\<close> block does not call
  \<open>saveConversation\<close>.
\<close>

theorem failed_call_apology_not_saved:
  "messages (submit (answering status500) (freshPage (js ''shampoo''))) =
     [systemMessage,
      \<lparr>role = Some (JStr (js ''user'')), content = Some (JStr (js ''shampoo'')),
        time = Some (JStr (js ''2024-05-01T10:00:00.000Z''))\<rparr>,
      \<lparr>role = Some (JStr (js ''assistant'')), content = Some (JStr errMsg), time = None\<rparr>]
   \<and> chatWindow (submit (answering status500) (freshPage (js ''shampoo''))) =
     [\<lparr>elRole = js ''user'', elBubbles = [(js '' '', Some (JStr (js ''shampoo'')))],
       elLoading = False\<rparr>,
      \<lparr>elRole = js ''ai'', elBubbles = [(advisorLabel, Some (JStr errMsg))],
       elLoading = False\<rparr>]
   \<and> loreal_messages (localStorage (submit (answering status500) (freshPage (js ''shampoo'')))) =
     Some (Doc (JArr
       [msg_json \<lparr>role = Some (JStr (js ''user'')), content = Some (JStr (js ''shampoo'')),
                  time = Some (JStr (js ''2024-05-01T10:00:00.000Z''))\<rparr>]))
   \<and> loreal_pastQuestions (localStorage (submit (answering status500) (freshPage (js ''shampoo''))))
       = Some (Doc (JArr []))"
  by (simp add: submit_def askRemote_def recordQuestion_def catchError_def steps Let_def
      freshPage_fields shampoo_facts notConfigured_never sendToApi_def getWorkerUrl_nonempty
      answering_def status500_def respOk_def loadingEl_def roles_differ roles_differ [symmetric] emptyStorage_def)

text \<open>
  C3. The claim has an extracted name stored under the \<open>userName\<close> key and shown.
  On the input \<open>My name is Alex, suggest a shampoo\<close> the handler finds the name
  and assigns it to the variable \<open>userName\<close>, but the storage has no
  \<open>loreal_userName\<close> after the turn and the name display still reads \<open>Guest\<close>:
  the handler does not go through \<open>setUserName\<close>.
\<close>

theorem extracted_name_not_stored:
  "nameMatch (js ''My name is Alex, suggest a shampoo'') = Some (js ''Alex'')
   \<and> userName (submit (answering status500) (freshPage (js ''My name is Alex, suggest a shampoo'')))
       = Some (js ''Alex'')
   \<and> loreal_userName (localStorage
         (submit (answering status500) (freshPage (js ''My name is Alex, suggest a shampoo''))))
       = None
   \<and> userNameDisplayEl
         (submit (answering status500) (freshPage (js ''My name is Alex, suggest a shampoo'')))
       = Some (js ''Guest'')"
  by (simp add: submit_def askRemote_def recordQuestion_def catchError_def steps Let_def
      freshPage_fields alex_facts notConfigured_never sendToApi_def getWorkerUrl_nonempty
      answering_def status500_def respOk_def emptyStorage_def)

text \<open>
  C4. The claim has the sentinel appended whenever the completion field is absent. For
  the response body \<^verbatim>\<open>{"choices":[{"message":{}}]}\<close> the test of the handler stops
  at \<open>message\<close>, so the text is the missing \<open>content\<close>, that is \<open>undefined\<close>,
  and the appended assistant message has no content instead of the sentinel.
\<close>

theorem missing_content_not_replaced:
  "assistantText messageWithoutContent = Inr None
   \<and> messages (submit (answering (okWith messageWithoutContent)) (freshPage (js ''shampoo''))) =
     [systemMessage,
      \<lparr>role = Some (JStr (js ''user'')), content = Some (JStr (js ''shampoo'')),
        time = Some (JStr (js ''2024-05-01T10:00:00.000Z''))\<rparr>,
      \<lparr>role = Some (JStr (js ''assistant'')), content = None,
        time = Some (JStr (js ''2024-05-01T10:00:02.000Z''))\<rparr>]
   \<and> chatWindow (submit (answering (okWith messageWithoutContent)) (freshPage (js ''shampoo''))) =
     [\<lparr>elRole = js ''user'', elBubbles = [(js '' '', Some (JStr (js ''shampoo'')))],
       elLoading = False\<rparr>,
      \<lparr>elRole = js ''ai'', elBubbles = [(advisorLabel, None)], elLoading = False\<rparr>]"
proof -
  have t: "assistantText messageWithoutContent = Inr None"
    by (simp add: assistantText_def messageWithoutContent_def js_def)
  show ?thesis
    by (simp add: t submit_def askRemote_def recordQuestion_def answerWith_def steps Let_def
      freshPage_fields shampoo_facts notConfigured_never sendToApi_def getWorkerUrl_nonempty
      answering_def okWith_def respOk_def loadingEl_def roles_differ roles_differ [symmetric])
qed

section \<open>Claims about the conversation store\<close>

text \<open>
  C5. After the click on the clear button, in every state a session can reach, the
  messages are exactly the system message, the past questions are empty, the user name is
  unset in memory and in the storage, and the saved conversation and past questions are
  removed from the storage.
\<close>

theorem reset_gives_fresh_session:
  assumes "reachable s"
  shows "messages (clearConversation s) = [systemMessage]
         \<and> pastQuestions (clearConversation s) = []
         \<and> userName (clearConversation s) = None
         \<and> loreal_userName (localStorage (clearConversation s)) = None
         \<and> loreal_messages (localStorage (clearConversation s)) = None
         \<and> loreal_pastQuestions (localStorage (clearConversation s)) = None"
proof -
  have "messages s \<noteq> []" and "hd (messages s) = systemMessage"
    using reachable_inv [OF assms] by (simp_all add: sessionInv_def)
  then show ?thesis
    by (simp add: clearConversation_def Let_def setUserName_def renderAssistantMessage_def
        renderMessage_def)
qed

theorem reset_gives_fresh_session_witness:
  "reachable (submit (answering status500) (freshPage (js ''My name is Alex, suggest a shampoo'')))
   \<and> userName (submit (answering status500) (freshPage (js ''My name is Alex, suggest a shampoo'')))
       = Some (js ''Alex'')
   \<and> messages (clearConversation
         (submit (answering status500) (freshPage (js ''My name is Alex, suggest a shampoo''))))
       = [systemMessage]
   \<and> pastQuestions (clearConversation
         (submit (answering status500) (freshPage (js ''My name is Alex, suggest a shampoo''))))
       = []
   \<and> userName (clearConversation
         (submit (answering status500) (freshPage (js ''My name is Alex, suggest a shampoo''))))
       = None"
proof -
  let ?s = "submit (answering status500) (freshPage (js ''My name is Alex, suggest a shampoo''))"
  have r: "reachable ?s"
    by (intro reachable.submitted reachable_freshPage)
  have n: "userName ?s = Some (js ''Alex'')"
    by (rule alex_turn_userName)
  from reset_gives_fresh_session [OF r] r n show ?thesis by simp
qed

text \<open>
  C6. In every state a session can reach (after the load with its restore, after
  submits, name edits and clears) the conversation is not empty and its index 0 is the
  system message. Every value the session has saved under \<open>loreal_messages\<close> is an
  array that does not contain the system message, and a save in the state writes the
  messages after index 0, none of which is the system message.
\<close>

theorem system_message_first_never_saved:
  assumes "reachable s"
  shows "messages s \<noteq> [] \<and> messages s ! 0 = systemMessage
         \<and> (\<forall>v. SetItem (js ''loreal_messages'') v \<in> set (trace s)
               \<longrightarrow> (\<exists>xs. v = JArr xs \<and> msg_json systemMessage \<notin> set xs))
         \<and> loreal_messages (localStorage (saveConversation s)) =
             Some (Doc (JArr (map msg_json (drop 1 (messages s)))))
         \<and> msg_json systemMessage \<notin> set (map msg_json (drop 1 (messages s)))"
proof -
  have inv: "sessionInv s" by (rule reachable_inv [OF assms])
  then have ne: "messages s \<noteq> []" and hd: "hd (messages s) = systemMessage"
    and later: "list_all laterMessage (tl (messages s))"
    by (simp_all add: sessionInv_def)
  have first: "messages s ! 0 = systemMessage"
    using ne hd by (simp add: hd_conv_nth)
  have saved: "\<forall>v. SetItem (js ''loreal_messages'') v \<in> set (trace s)
               \<longrightarrow> (\<exists>xs. v = JArr xs \<and> msg_json systemMessage \<notin> set xs)"
  proof (intro allI impI)
    fix v
    assume "SetItem (js ''loreal_messages'') v \<in> set (trace s)"
    with inv have "cleanWrite (SetItem (js ''loreal_messages'') v)"
      by (auto simp: sessionInv_def list_all_iff)
    then show "\<exists>xs. v = JArr xs \<and> msg_json systemMessage \<notin> set xs"
      by (cases v) simp_all
  qed
  have now: "msg_json systemMessage \<notin> set (map msg_json (drop 1 (messages s)))"
    using later_json_clean [OF later] by (simp add: drop_Suc)
  show ?thesis
    using ne first saved now by (simp add: saveConversation_def Let_def)
qed

theorem system_message_first_never_saved_witness:
  "reachable (submit (answering status500) (freshPage (js ''Hello'')))
   \<and> messages (submit (answering status500) (freshPage (js ''Hello''))) ! 0 = systemMessage
   \<and> length (messages (submit (answering status500) (freshPage (js ''Hello'')))) = 3
   \<and> msg_json systemMessage \<notin>
       set (map msg_json (drop 1 (messages (submit (answering status500) (freshPage (js ''Hello''))))))"
proof -
  let ?s = "submit (answering status500) (freshPage (js ''Hello''))"
  have r: "reachable ?s"
    by (intro reachable.submitted reachable_freshPage)
  have n: "length (messages ?s) = 3"
    by (simp add: submit_def Let_def freshPage_fields hello_facts)
  from system_message_first_never_saved [OF r] r n show ?thesis by simp
qed





end
